theory Spec2Isabelle
  imports Complex_Main "HOL-Library.Log_Nat"
begin

section \<open>The game logic of js/app.js\<close>

text \<open>
  A JavaScript number is modelled as a \<^typ>\<open>real\<close> where it is a pixel coordinate, a
  speed or a time delta, and as an \<^typ>\<open>int\<close> where the source documents a count
  (lanes, columns, enemies, difficulty, streak). The whole numbers of the file stay well
  inside the range on which a double is exact. The one place where the rounding of a
  double decides a whole-number result is \<open>getRandomInt\<close>, and there the arithmetic
  is modelled in double precision, with round-to-nearest, ties to even.
\<close>

subsection \<open>Constants and global variables\<close>

text \<open>The tileset constants, written in capitals in the source, and the sprite offset.\<close>

definition COLWIDTH :: real where "COLWIDTH = 101"
definition ROWHEIGHT :: real where "ROWHEIGHT = 83"
definition TILEBOTTOM :: real where "TILEBOTTOM = 37"
definition TILETOP :: real where "TILETOP = 51"
definition TILEHEIGHT :: real where "TILEHEIGHT = 171"
definition dy :: real where "dy = - 26"

text \<open>
  The values the source invites the reader to change: \<open>numLanes\<close>, \<open>numCols\<close>,
  \<open>numEnemies\<close>, \<open>baseEnemySpeed\<close> and \<open>gameDifficulty\<close>. Every function below
  that reads one of them takes the record as its first argument.
\<close>

record globals =
  numLanes :: int
  numCols :: int
  numEnemies :: int
  baseEnemySpeed :: real
  gameDifficulty :: int

text \<open>The values js/app.js ships with.\<close>

definition app_js :: globals where
  "app_js = \<lparr>numLanes = 5, numCols = 7, numEnemies = 10, baseEnemySpeed = 200,
     gameDifficulty = 4\<rparr>"

text \<open>The globals computed from them while the script loads; nothing assigns them later.\<close>

definition numRows :: "globals \<Rightarrow> int" where
  "numRows g = numLanes g + 3"

definition canvasWidth :: "globals \<Rightarrow> real" where
  "canvasWidth g = of_int (numCols g) * COLWIDTH"

definition canvasHeight :: "globals \<Rightarrow> real" where
  "canvasHeight g = (of_int (numRows g) * ROWHEIGHT) + TILETOP + TILEBOTTOM"

definition playerStartCol :: "globals \<Rightarrow> int" where
  "playerStartCol g = \<lfloor>of_int (numCols g) / (2 :: real)\<rfloor>"

definition PlayerStartRow :: "globals \<Rightarrow> int" where
  "PlayerStartRow g = numRows g - 1"

subsection \<open>Entities\<close>

text \<open>
  \<open>Entity\<close> carries the position; \<open>Enemy\<close> adds a speed. The sprite path of
  \<open>GraphicEntity\<close> is only read by the renderer and is left out.
\<close>

record entity =
  x :: real
  y :: real

record enemy = entity +
  speed :: real

type_synonym player = entity

subsection \<open>Collision test\<close>

definition checkCollision :: "('a entity_scheme) \<Rightarrow> ('b entity_scheme) \<Rightarrow> bool" where
  "checkCollision e p =
     (let eLeft = x e;
          eRight = x e + COLWIDTH;
          eTop = y e + 65;
          eBottom = y e + ROWHEIGHT - 30;
          pLeft = x p + 30;
          pRight = x p + COLWIDTH - 30;
          pTop = y p + 45;
          pBottom = y p + ROWHEIGHT
      in \<not> (pLeft > eRight \<or> pRight < eLeft \<or> pTop > eBottom \<or> pBottom < eTop))"

text \<open>
  The next definitions follow the words of the specification, not the source, so that
  the source's test can be compared with them. A box is a pair of closed ranges, one
  per axis; its points are those inside both ranges; two boxes intersect when they
  share a point.
\<close>

record box =
  left :: real
  right :: real
  top :: real
  bottom :: real

definition obstacle_box :: "('a entity_scheme) \<Rightarrow> box" where
  "obstacle_box e =
     \<lparr>left = x e, right = x e + COLWIDTH, top = y e + 65, bottom = y e + ROWHEIGHT - 30\<rparr>"

definition agent_box :: "('a entity_scheme) \<Rightarrow> box" where
  "agent_box p =
     \<lparr>left = x p + 30, right = x p + COLWIDTH - 30, top = y p + 45, bottom = y p + ROWHEIGHT\<rparr>"

definition points :: "box \<Rightarrow> (real \<times> real) set" where
  "points b = {left b .. right b} \<times> {top b .. bottom b}"

definition boxes_intersect :: "box \<Rightarrow> box \<Rightarrow> bool" where
  "boxes_intersect a b \<longleftrightarrow> points a \<inter> points b \<noteq> {}"

text \<open>The four comparisons of box ends that the source's test negates.\<close>

definition apart :: "box \<Rightarrow> box \<Rightarrow> bool" where
  "apart a b \<longleftrightarrow>
     left b > right a \<or> right b < left a \<or> top b > bottom a \<or> bottom b < top a"

subsection \<open>Double-precision arithmetic\<close>

text \<open>
  A double is written as a whole mantissa and a binary exponent; its value is
  \<open>mant * 2 ^ expo\<close>. The pair need not be normalised. The exponent is not bounded:
  the product of a draw with a whole number and the sum of that product with a whole
  number, which is all that is computed below, neither overflow nor underflow.
\<close>

record binary64 =
  mant :: int
  expo :: int

definition val :: "binary64 \<Rightarrow> real" where
  "val d = of_int (mant d) * 2 powi (expo d)"

text \<open>
  Rounding of an exact result to 53 significant bits: the nearest such number, and of
  two equally near ones the one with the even mantissa.
\<close>

definition round53 :: "binary64 \<Rightarrow> binary64" where
  "round53 d =
     (let b = bitlen \<bar>mant d\<bar>
      in if b \<le> 53 then d
         else
           (let s = nat (b - 53);
                q = mant d div 2 ^ s;
                rest = mant d mod 2 ^ s;
                half = 2 ^ (s - 1)
            in \<lparr>mant = (if rest < half then q
                       else if rest > half then q + 1
                       else if even q then q else q + 1),
                expo = expo d + int s\<rparr>))"

text \<open>A whole number as a double, the product and the sum of two doubles, and \<open>Math.floor\<close>.\<close>

definition num :: "int \<Rightarrow> binary64" where
  "num i = round53 \<lparr>mant = i, expo = 0\<rparr>"

definition fmul :: "binary64 \<Rightarrow> binary64 \<Rightarrow> binary64" where
  "fmul a b = round53 \<lparr>mant = mant a * mant b, expo = expo a + expo b\<rparr>"

definition fadd :: "binary64 \<Rightarrow> binary64 \<Rightarrow> binary64" where
  "fadd a b =
     (let e = min (expo a) (expo b)
      in round53 \<lparr>mant = mant a * 2 ^ nat (expo a - e) + mant b * 2 ^ nat (expo b - e),
                  expo = e\<rparr>)"

definition Math_floor :: "binary64 \<Rightarrow> int" where
  "Math_floor d =
     (if 0 \<le> expo d then mant d * 2 ^ nat (expo d) else mant d div 2 ^ nat (- expo d))"

subsection \<open>Random integers\<close>

text \<open>
  \<open>Math.random()\<close> returns a double \<open>r\<close> with \<open>0 \<le> r < 1\<close>: a mantissa below
  \<open>2 ^ 53\<close> with an exponent of at most \<open>- 53\<close>. The model takes the draw as an
  argument, so a statement about every outcome quantifies over every draw.
\<close>

definition is_draw :: "binary64 \<Rightarrow> bool" where
  "is_draw r \<longleftrightarrow> 0 \<le> mant r \<and> mant r < 2 ^ 53 \<and> - 1074 \<le> expo r \<and> expo r \<le> - 53"

definition getRandomInt :: "binary64 \<Rightarrow> int \<Rightarrow> int \<Rightarrow> int" where
  "getRandomInt r mn mx = Math_floor (fadd (fmul r (num (mx - mn))) (num mn))"

subsection \<open>Enemy\<close>

text \<open>\<open>setRandomValues\<close> draws three times, in the order x, y, speed.\<close>

definition setRandomValues ::
  "globals \<Rightarrow> binary64 \<times> binary64 \<times> binary64 \<Rightarrow> enemy \<Rightarrow> enemy" where
  "setRandomValues g rs e =
     (case rs of (r1, r2, r3) \<Rightarrow>
        e\<lparr>x := of_int (getRandomInt r1 1 (numCols g)) * - COLWIDTH,
          y := of_int (getRandomInt r2 1 (numLanes g + 1)) * ROWHEIGHT + dy,
          speed := baseEnemySpeed g + 50 * of_int (getRandomInt r3 1 (gameDifficulty g + 1))\<rparr>)"

definition Enemy_update ::
  "globals \<Rightarrow> real \<Rightarrow> binary64 \<times> binary64 \<times> binary64 \<Rightarrow> enemy \<Rightarrow> enemy" where
  "Enemy_update g dt rs e =
     (if x e < COLWIDTH * of_int (numCols g) then e\<lparr>x := x e + dt * speed e\<rparr>
      else setRandomValues g rs e)"

subsection \<open>Player\<close>

definition setInitialPosition :: "globals \<Rightarrow> player \<Rightarrow> player" where
  "setInitialPosition g p =
     p\<lparr>x := of_int (playerStartCol g) * COLWIDTH,
       y := of_int (PlayerStartRow g) * ROWHEIGHT + dy\<rparr>"

definition getCurrentCol :: "player \<Rightarrow> real" where
  "getCurrentCol p = x p / COLWIDTH"

definition getCurrentRow :: "player \<Rightarrow> real" where
  "getCurrentRow p = (y p - dy) / ROWHEIGHT"

text \<open>
  The key listener passes \<open>allowedKeys[e.keyCode]\<close>, which is a string or, for any
  other key, \<open>undefined\<close>. The \<open>switch\<close> compares with \<open>===\<close> and has no default.
\<close>

datatype direction = Str string | Undefined

definition handleInput :: "globals \<Rightarrow> direction \<Rightarrow> player \<Rightarrow> player" where
  "handleInput g d p =
     (if d = Str ''left'' then
        (if getCurrentCol p > 0 then p\<lparr>x := x p - COLWIDTH\<rparr> else p)
      else if d = Str ''right'' then
        (if getCurrentCol p < of_int (numCols g - 1) then p\<lparr>x := x p + COLWIDTH\<rparr> else p)
      else if d = Str ''up'' then
        (if getCurrentRow p > 0 then p\<lparr>y := y p - ROWHEIGHT\<rparr> else p)
      else if d = Str ''down'' then
        (if getCurrentRow p < of_int (numRows g - 1) then p\<lparr>y := y p + ROWHEIGHT\<rparr> else p)
      else p)"

subsection \<open>Stats and the state of the game\<close>

text \<open>The streak counts goal arrivals from 0 in steps of one.\<close>

record Stats =
  streakX :: real
  streakY :: real
  streak :: int

definition new_Stats :: "real \<Rightarrow> real \<Rightarrow> Stats" where
  "new_Stats sx sy = \<lparr>streakX = sx, streakY = sy, streak = 0\<rparr>"

definition incrementStreak :: "Stats \<Rightarrow> Stats" where
  "incrementStreak st = st\<lparr>streak := streak st + 1\<rparr>"

definition resetStreak :: "Stats \<Rightarrow> Stats" where
  "resetStreak st = st\<lparr>streak := 0\<rparr>"

text \<open>
  The objects the script instantiates and later writes: the single \<open>player\<close> and
  \<open>stats\<close>. A function of the source that writes one of them takes the state and
  returns it updated. The array \<open>allEnemies\<close> is only read by the functions below
  and is passed as an argument.
\<close>

record game =
  player :: player
  stats :: Stats

text \<open>\<open>win\<close> is only ever called as \<open>win(this)\<close> by the one player.\<close>

definition win :: "globals \<Rightarrow> game \<Rightarrow> game" where
  "win g s = s\<lparr>stats := incrementStreak (stats s), player := setInitialPosition g (player s)\<rparr>"

definition Player_update :: "globals \<Rightarrow> game \<Rightarrow> game" where
  "Player_update g s = (if getCurrentRow (player s) < 1 then win g s else s)"

definition die :: "globals \<Rightarrow> game \<Rightarrow> game" where
  "die g s = s\<lparr>stats := resetStreak (stats s), player := setInitialPosition g (player s)\<rparr>"

text \<open>
  \<open>allEnemies.forEach\<close> visits the array from its first element; the callback reads
  the player as the earlier visits left it. Next to the state the loop leaves, the model
  returns the calls of \<open>player.die()\<close> the loop made: the enemies whose test
  triggered one, in the order of the calls. The list is not a value of the source; it
  makes the calls observable.
\<close>

fun checkCollisions :: "globals \<Rightarrow> enemy list \<Rightarrow> game \<Rightarrow> game \<times> enemy list" where
  "checkCollisions g [] s = (s, [])"
| "checkCollisions g (enemy # rest) s =
     (if checkCollision enemy (player s)
      then (case checkCollisions g rest (die g s) of (s', died) \<Rightarrow> (s', enemy # died))
      else checkCollisions g rest s)"

subsection \<open>Calls on the player, for statements about every sequence of them\<close>

datatype player_call = HandleInput direction | SetInitialPosition

fun call :: "globals \<Rightarrow> player \<Rightarrow> player_call \<Rightarrow> player" where
  "call g p (HandleInput d) = handleInput g d p"
| "call g p SetInitialPosition = setInitialPosition g p"

definition calls :: "globals \<Rightarrow> player_call list \<Rightarrow> player \<Rightarrow> player" where
  "calls g cs p = foldl (call g) p cs"

text \<open>
  A position on the grid: the column and the row are whole numbers inside the grid and
  the coordinates are exactly those of that tile.
\<close>

definition on_grid :: "globals \<Rightarrow> player \<Rightarrow> bool" where
  "on_grid g p \<longleftrightarrow>
     (let c = \<lfloor>getCurrentCol p\<rfloor>; r = \<lfloor>getCurrentRow p\<rfloor>
      in x p = of_int c * COLWIDTH \<and> y p = of_int r * ROWHEIGHT + dy \<and>
         0 \<le> c \<and> c \<le> numCols g - 1 \<and> 0 \<le> r \<and> r \<le> numRows g - 1)"

section \<open>The configuration module of js/configModule.js\<close>

subsection \<open>The private settings object\<close>

text \<open>
  The closure holds one object, \<open>settings\<close>. Its literal gives the seven tileset
  fields; \<open>CONFIG.init\<close> stores the other five, which do not exist before the first
  call. The model covers the module from that call on, so each field has a value.
\<close>

record settings =
  settings_colWidth :: real
  settings_rowHeight :: real
  settings_tileBottom :: real
  settings_tileTop :: real
  settings_tileHeight :: real
  settings_dy :: real
  settings_scale :: real
  settings_numLanes :: int
  settings_numCols :: int
  settings_numEnemies :: int
  settings_baseEnemySpeed :: real
  settings_gameDifficulty :: int

text \<open>What the literal fixes; it says nothing about the five fields it does not list.\<close>

definition closure_literal :: "settings \<Rightarrow> bool" where
  "closure_literal s \<longleftrightarrow>
     settings_colWidth s = 101 \<and> settings_rowHeight s = 83 \<and> settings_tileBottom s = 37 \<and>
     settings_tileTop s = 51 \<and> settings_tileHeight s = 171 \<and> settings_dy s = - 26 \<and>
     settings_scale s = 1"

definition init :: "int \<Rightarrow> int \<Rightarrow> int \<Rightarrow> real \<Rightarrow> int \<Rightarrow> settings \<Rightarrow> settings" where
  "init nl nc ne bs gd s =
     s\<lparr>settings_numLanes := nl, settings_numCols := nc, settings_numEnemies := ne,
       settings_baseEnemySpeed := bs, settings_gameDifficulty := gd\<rparr>"

text \<open>The settings once the game has called \<open>CONFIG.init(4, 7, 10, 200, 4)\<close>.\<close>

definition default_settings :: settings where
  "default_settings =
     \<lparr>settings_colWidth = 101, settings_rowHeight = 83, settings_tileBottom = 37,
      settings_tileTop = 51, settings_tileHeight = 171, settings_dy = - 26, settings_scale = 1,
      settings_numLanes = 4, settings_numCols = 7, settings_numEnemies = 10,
      settings_baseEnemySpeed = 200, settings_gameDifficulty = 4\<rparr>"

subsection \<open>Getters\<close>

definition getNumRows :: "settings \<Rightarrow> int" where
  "getNumRows s = settings_numLanes s + 3"

definition getNativeCanvasWidth :: "settings \<Rightarrow> real" where
  "getNativeCanvasWidth s = of_int (settings_numCols s) * settings_colWidth s"

definition getNativeCanvasHeight :: "settings \<Rightarrow> real" where
  "getNativeCanvasHeight s =
     of_int (getNumRows s) * settings_rowHeight s + settings_tileTop s + settings_tileBottom s"

definition getTileHeight :: "settings \<Rightarrow> real" where
  "getTileHeight s = settings_scale s * settings_tileHeight s"

definition getScalingFactor :: "settings \<Rightarrow> real" where
  "getScalingFactor s = settings_scale s"

definition getNativeColWidth :: "settings \<Rightarrow> real" where
  "getNativeColWidth s = settings_colWidth s"

definition getColWidth :: "settings \<Rightarrow> real" where
  "getColWidth s = settings_scale s * settings_colWidth s"

definition getNativeRowHeight :: "settings \<Rightarrow> real" where
  "getNativeRowHeight s = settings_rowHeight s"

definition getRowHeight :: "settings \<Rightarrow> real" where
  "getRowHeight s = settings_scale s * settings_rowHeight s"

definition getNativeDY :: "settings \<Rightarrow> real" where
  "getNativeDY s = settings_dy s"

definition getDY :: "settings \<Rightarrow> real" where
  "getDY s = settings_scale s * settings_dy s"

definition getNumLanes :: "settings \<Rightarrow> int" where
  "getNumLanes s = settings_numLanes s"

definition getNumCols :: "settings \<Rightarrow> int" where
  "getNumCols s = settings_numCols s"

definition getNumEnemies :: "settings \<Rightarrow> int" where
  "getNumEnemies s = settings_numEnemies s"

definition getBaseEnemySpeed :: "settings \<Rightarrow> real" where
  "getBaseEnemySpeed s = settings_baseEnemySpeed s"

definition getGameDifficulty :: "settings \<Rightarrow> int" where
  "getGameDifficulty s = settings_gameDifficulty s"

definition getCanvasWidth :: "settings \<Rightarrow> real" where
  "getCanvasWidth s = settings_scale s * getNativeCanvasWidth s"

definition getCanvasHeight :: "settings \<Rightarrow> real" where
  "getCanvasHeight s = settings_scale s * getNativeCanvasHeight s"

definition getPlayerStartCol :: "settings \<Rightarrow> int" where
  "getPlayerStartCol s = \<lfloor>of_int (settings_numCols s) / (2 :: real)\<rfloor>"

definition getPlayerStartRow :: "settings \<Rightarrow> int" where
  "getPlayerStartRow s = getNumRows s - 1"

subsection \<open>Setters\<close>

text \<open>
  A setter returns what the JavaScript function returns together with the settings it
  leaves. The increment and decrement functions return the stored number from inside
  their \<open>if\<close> and fall off the end otherwise, which yields \<open>undefined\<close>:
  \<open>None\<close> here.
\<close>

definition setScalingFactor :: "real \<Rightarrow> settings \<Rightarrow> real \<times> settings" where
  "setScalingFactor sc s = (sc, s\<lparr>settings_scale := sc\<rparr>)"

definition incrementGameDifficulty :: "settings \<Rightarrow> int option \<times> settings" where
  "incrementGameDifficulty s =
     (if settings_gameDifficulty s < 20
      then (Some (settings_gameDifficulty s + 1),
            s\<lparr>settings_gameDifficulty := settings_gameDifficulty s + 1\<rparr>)
      else (None, s))"

definition decrementGameDifficulty :: "settings \<Rightarrow> int option \<times> settings" where
  "decrementGameDifficulty s =
     (if settings_gameDifficulty s > 1
      then (Some (settings_gameDifficulty s - 1),
            s\<lparr>settings_gameDifficulty := settings_gameDifficulty s - 1\<rparr>)
      else (None, s))"

definition incrementNumEnemies :: "settings \<Rightarrow> int option \<times> settings" where
  "incrementNumEnemies s =
     (if settings_numEnemies s < 20
      then (Some (settings_numEnemies s + 1),
            s\<lparr>settings_numEnemies := settings_numEnemies s + 1\<rparr>)
      else (None, s))"

definition decrementNumEnemies :: "settings \<Rightarrow> int option \<times> settings" where
  "decrementNumEnemies s =
     (if settings_numEnemies s > 0
      then (Some (settings_numEnemies s - 1),
            s\<lparr>settings_numEnemies := settings_numEnemies s - 1\<rparr>)
      else (None, s))"

definition incrementNumLanes :: "settings \<Rightarrow> int option \<times> settings" where
  "incrementNumLanes s =
     (if settings_numLanes s < 10
      then (Some (settings_numLanes s + 1),
            s\<lparr>settings_numLanes := settings_numLanes s + 1\<rparr>)
      else (None, s))"

definition decrementNumLanes :: "settings \<Rightarrow> int option \<times> settings" where
  "decrementNumLanes s =
     (if settings_numLanes s > 1
      then (Some (settings_numLanes s - 1),
            s\<lparr>settings_numLanes := settings_numLanes s - 1\<rparr>)
      else (None, s))"

definition incrementNumCols :: "settings \<Rightarrow> int option \<times> settings" where
  "incrementNumCols s =
     (if settings_numCols s < 20
      then (Some (settings_numCols s + 1),
            s\<lparr>settings_numCols := settings_numCols s + 1\<rparr>)
      else (None, s))"

definition decrementNumCols :: "settings \<Rightarrow> int option \<times> settings" where
  "decrementNumCols s =
     (if settings_numCols s > 1
      then (Some (settings_numCols s - 1),
            s\<lparr>settings_numCols := settings_numCols s - 1\<rparr>)
      else (None, s))"

subsection \<open>Calls on the module, for statements about every sequence of them\<close>

datatype config_call =
    Init int int int real int
  | SetScalingFactor real
  | IncrementGameDifficulty | DecrementGameDifficulty
  | IncrementNumEnemies | DecrementNumEnemies
  | IncrementNumLanes | DecrementNumLanes
  | IncrementNumCols | DecrementNumCols

fun after_call :: "settings \<Rightarrow> config_call \<Rightarrow> settings" where
  "after_call s (Init nl nc ne bs gd) = init nl nc ne bs gd s"
| "after_call s (SetScalingFactor sc) = snd (setScalingFactor sc s)"
| "after_call s IncrementGameDifficulty = snd (incrementGameDifficulty s)"
| "after_call s DecrementGameDifficulty = snd (decrementGameDifficulty s)"
| "after_call s IncrementNumEnemies = snd (incrementNumEnemies s)"
| "after_call s DecrementNumEnemies = snd (decrementNumEnemies s)"
| "after_call s IncrementNumLanes = snd (incrementNumLanes s)"
| "after_call s DecrementNumLanes = snd (decrementNumLanes s)"
| "after_call s IncrementNumCols = snd (incrementNumCols s)"
| "after_call s DecrementNumCols = snd (decrementNumCols s)"

definition after_calls :: "settings \<Rightarrow> config_call list \<Rightarrow> settings" where
  "after_calls s cs = foldl after_call s cs"

subsection \<open>Scaled positions of an entity\<close>

text \<open>
  The game script that runs on the module gives \<open>Entity\<close> two methods that read the
  scaling factor.
\<close>

definition scaledX :: "settings \<Rightarrow> ('a entity_scheme) \<Rightarrow> real" where
  "scaledX s e = (let scale = getScalingFactor s in x e * scale)"

definition scaledY :: "settings \<Rightarrow> ('a entity_scheme) \<Rightarrow> real" where
  "scaledY s e = (let scale = getScalingFactor s in y e * scale)"

section \<open>Properties of the collision test\<close>

lemma checkCollision_ends:
  "checkCollision e p \<longleftrightarrow>
     x p + 30 \<le> x e + COLWIDTH \<and> x e \<le> x p + COLWIDTH - 30 \<and>
     y p + 45 \<le> y e + ROWHEIGHT - 30 \<and> y e + 65 \<le> y p + ROWHEIGHT"
  by (auto simp: checkCollision_def Let_def)

text \<open>
  C1, as worded: \<open>checkCollision\<close> is true exactly when the closed boxes intersect.
  This fails: with \<open>ROWHEIGHT = 83\<close> the obstacle's vertical range runs from
  \<open>y + 65\<close> down to \<open>y + 53\<close>, so the obstacle box has no point at all, while the
  test answers true for an enemy and a player on the same tile.
\<close>

theorem checkCollision_boxes_counterexample:
  "checkCollision \<lparr>x = 0, y = 57\<rparr> \<lparr>x = 0, y = 57\<rparr> \<and>
   \<not> boxes_intersect (obstacle_box \<lparr>x = 0, y = 57\<rparr>) (agent_box \<lparr>x = 0, y = 57\<rparr>)"
  by (simp add: checkCollision_def boxes_intersect_def points_def obstacle_box_def
      agent_box_def COLWIDTH_def ROWHEIGHT_def)

text \<open>
  C1, amended: \<open>checkCollision\<close> is false exactly when one of the four comparisons of
  box ends holds. On the horizontal axis that is the intersection of the closed ranges
  \<open>[ex, ex + COLWIDTH]\<close> and \<open>[px + 30, px + COLWIDTH - 30]\<close>; on the vertical axis
  it holds exactly when both ends of the obstacle's range, \<open>ey + ROWHEIGHT - 30\<close> and
  \<open>ey + 65\<close>, lie in the player's range \<open>[py + 45, py + ROWHEIGHT]\<close>.
\<close>

theorem checkCollision_end_comparison:
  "(checkCollision e p \<longleftrightarrow> \<not> apart (obstacle_box e) (agent_box p)) \<and>
   (checkCollision e p \<longleftrightarrow>
      {x e .. x e + COLWIDTH} \<inter> {x p + 30 .. x p + COLWIDTH - 30} \<noteq> {} \<and>
      y e + ROWHEIGHT - 30 \<in> {y p + 45 .. y p + ROWHEIGHT} \<and>
      y e + 65 \<in> {y p + 45 .. y p + ROWHEIGHT})"
proof -
  have ends: "checkCollision e p \<longleftrightarrow> \<not> apart (obstacle_box e) (agent_box p)"
    by (auto simp: checkCollision_ends apart_def obstacle_box_def agent_box_def)
  have xs: "{x e .. x e + COLWIDTH} \<inter> {x p + 30 .. x p + COLWIDTH - 30} \<noteq> {}
      \<longleftrightarrow> x p + 30 \<le> x e + COLWIDTH \<and> x e \<le> x p + COLWIDTH - 30"
    by (auto simp: COLWIDTH_def)
  have ys: "y e + ROWHEIGHT - 30 \<in> {y p + 45 .. y p + ROWHEIGHT} \<and>
      y e + 65 \<in> {y p + 45 .. y p + ROWHEIGHT}
      \<longleftrightarrow> y p + 45 \<le> y e + ROWHEIGHT - 30 \<and> y e + 65 \<le> y p + ROWHEIGHT"
    by (auto simp: ROWHEIGHT_def)
  show ?thesis
    unfolding xs ys using ends by (simp add: checkCollision_ends)
qed





section \<open>Properties of the player\<close>

text \<open>
  C2: for a player standing on column \<open>c\<close> of the grid, \<open>0 \<le> c \<le> numCols - 1\<close>,
  the input \<open>"left"\<close> changes nothing when \<open>c = 0\<close>; when \<open>c > 0\<close> it lowers
  \<open>x\<close> by exactly one \<open>COLWIDTH\<close>, to column \<open>c - 1\<close>, and leaves \<open>y\<close> as it was.
\<close>

theorem handleInput_left:
  assumes "x p = of_int c * COLWIDTH" and "0 \<le> c" and "c \<le> numCols g - 1"
  shows "(c = 0 \<longrightarrow> handleInput g (Str ''left'') p = p) \<and>
         (0 < c \<longrightarrow> handleInput g (Str ''left'') p = p\<lparr>x := x p - COLWIDTH\<rparr> \<and>
            x (handleInput g (Str ''left'') p) = of_int (c - 1) * COLWIDTH \<and>
            y (handleInput g (Str ''left'') p) = y p)"
  using assms by (simp add: handleInput_def getCurrentCol_def COLWIDTH_def algebra_simps)

theorem handleInput_left_witness:
  "handleInput app_js (Str ''left'') \<lparr>x = 0, y = 555\<rparr> = \<lparr>x = 0, y = 555\<rparr> \<and>
   handleInput app_js (Str ''left'') \<lparr>x = 303, y = 555\<rparr> = \<lparr>x = 202, y = 555\<rparr>"
  using handleInput_left [of "\<lparr>x = 0, y = 555\<rparr>" 0 app_js]
    handleInput_left [of "\<lparr>x = 303, y = 555\<rparr>" 3 app_js]
  by (simp add: app_js_def COLWIDTH_def)

text \<open>
  C3: when the player's update runs with the current row below 1, the streak grows by
  exactly one, whatever it was, and the player stands at the start position
  \<open>(playerStartCol * COLWIDTH, PlayerStartRow * ROWHEIGHT + dy)\<close>; when the current
  row is at least 1 the update changes nothing.
\<close>

theorem Player_update_goal:
  "(getCurrentRow (player s) < 1 \<longrightarrow>
      streak (stats (Player_update g s)) = streak (stats s) + 1 \<and>
      x (player (Player_update g s)) = of_int (playerStartCol g) * COLWIDTH \<and>
      y (player (Player_update g s)) = of_int (PlayerStartRow g) * ROWHEIGHT + dy) \<and>
   (1 \<le> getCurrentRow (player s) \<longrightarrow> Player_update g s = s)"
  by (simp add: Player_update_def win_def incrementStreak_def setInitialPosition_def)

theorem Player_update_goal_witness:
  "getCurrentRow \<lparr>x = 202, y = - 26\<rparr> < 1 \<and>
   streak (stats (Player_update app_js
     \<lparr>player = \<lparr>x = 202, y = - 26\<rparr>,
      stats = \<lparr>streakX = 637, streakY = 682, streak = 41\<rparr>\<rparr>)) = 42 \<and>
   x (player (Player_update app_js
     \<lparr>player = \<lparr>x = 202, y = - 26\<rparr>,
      stats = \<lparr>streakX = 637, streakY = 682, streak = 41\<rparr>\<rparr>)) = 303 \<and>
   y (player (Player_update app_js
     \<lparr>player = \<lparr>x = 202, y = - 26\<rparr>,
      stats = \<lparr>streakX = 637, streakY = 682, streak = 41\<rparr>\<rparr>)) = 555 \<and>
   1 \<le> getCurrentRow \<lparr>x = 202, y = 223\<rparr> \<and>
   Player_update app_js
     \<lparr>player = \<lparr>x = 202, y = 223\<rparr>,
      stats = \<lparr>streakX = 637, streakY = 682, streak = 41\<rparr>\<rparr> =
     \<lparr>player = \<lparr>x = 202, y = 223\<rparr>,
      stats = \<lparr>streakX = 637, streakY = 682, streak = 41\<rparr>\<rparr>"
  using Player_update_goal [of "\<lparr>player = \<lparr>x = 202, y = - 26\<rparr>,
      stats = \<lparr>streakX = 637, streakY = 682, streak = 41\<rparr>\<rparr>" app_js]
    Player_update_goal [of "\<lparr>player = \<lparr>x = 202, y = 223\<rparr>,
      stats = \<lparr>streakX = 637, streakY = 682, streak = 41\<rparr>\<rparr>" app_js]
  by (simp add: getCurrentRow_def dy_def ROWHEIGHT_def COLWIDTH_def app_js_def
      playerStartCol_def PlayerStartRow_def numRows_def)

section \<open>Properties of the collision loop\<close>

lemma die_twice: "die g (die g s) = die g s"
  by (simp add: die_def resetStreak_def setInitialPosition_def)

lemma player_die: "player (die g s) = setInitialPosition g (player s)"
  by (simp add: die_def)

lemma setInitialPosition_twice:
  "setInitialPosition g (setInitialPosition g p) = setInitialPosition g p"
  by (simp add: setInitialPosition_def)

lemma checkCollisions_last:
  "checkCollisions g (es @ [e]) s =
     (case checkCollisions g es s of
        (s', died) \<Rightarrow>
          if checkCollision e (player s') then (die g s', died @ [e]) else (s', died))"
  by (induction es arbitrary: s) (simp_all split: prod.splits)

lemma checkCollisions_state:
  "fst (checkCollisions g es s) =
     (if list_ex (\<lambda>e. checkCollision e (player s)) es then die g s else s)"
  by (induction es arbitrary: s) (simp_all add: die_twice case_prod_beta)

lemma checkCollisions_at_start:
  assumes "player s = setInitialPosition g q"
  shows "snd (checkCollisions g es s) = filter (\<lambda>e. checkCollision e (player s)) es"
  using assms
proof (induction es arbitrary: s)
  case Nil
  then show ?case by simp
next
  case (Cons e es)
  have p: "player (die g s) = player s"
    using Cons.prems by (simp add: player_die setInitialPosition_twice)
  then have "player (die g s) = setInitialPosition g q" using Cons.prems by simp
  from Cons.IH [OF this] Cons.IH [OF Cons.prems] p show ?case
    by (simp add: case_prod_beta)
qed

lemma checkCollisions_died:
  "snd (checkCollisions g es s) =
     (case dropWhile (\<lambda>e. \<not> checkCollision e (player s)) es of
        [] \<Rightarrow> []
      | first # later \<Rightarrow>
          first # filter (\<lambda>e. checkCollision e (setInitialPosition g (player s))) later)"
proof (induction es)
  case Nil
  then show ?case by simp
next
  case (Cons e es)
  have "snd (checkCollisions g es (die g s)) =
      filter (\<lambda>e. checkCollision e (setInitialPosition g (player s))) es"
    using checkCollisions_at_start [of "die g s" g "player s" es] by (simp add: player_die)
  with Cons show ?case by (simp add: case_prod_beta)
qed

text \<open>
  C4: the failure transition sets the streak to exactly 0, whatever it was, and puts the
  player on the start position. One call of \<open>checkCollisions\<close> tests the enemies in
  array order: the last enemy is tested against the player as the earlier ones left it,
  and when it hits, \<open>die\<close> is called once more, after the calls the earlier enemies
  triggered. So the calls of one loop are: one for the first enemy that hits the player,
  and one for every later enemy that hits the player on the start position; none is
  left out because an earlier one happened. The state after the loop is that of one
  failure transition when some enemy hits, since a repeated transition leaves what the
  first one left, and the state before the loop otherwise.
\<close>

theorem checkCollisions_hits:
  "streak (stats (die g s)) = 0 \<and>
   x (player (die g s)) = of_int (playerStartCol g) * COLWIDTH \<and>
   y (player (die g s)) = of_int (PlayerStartRow g) * ROWHEIGHT + dy \<and>
   checkCollisions g (es @ [e]) s =
     (case checkCollisions g es s of
        (s', died) \<Rightarrow>
          if checkCollision e (player s') then (die g s', died @ [e]) else (s', died)) \<and>
   snd (checkCollisions g es s) =
     (case dropWhile (\<lambda>e. \<not> checkCollision e (player s)) es of
        [] \<Rightarrow> []
      | first # later \<Rightarrow>
          first # filter (\<lambda>e. checkCollision e (setInitialPosition g (player s))) later) \<and>
   fst (checkCollisions g es s) =
     (if list_ex (\<lambda>e. checkCollision e (player s)) es then die g s else s)"
  using checkCollisions_last [of g es e s] checkCollisions_died [of g es s]
    checkCollisions_state [of g es s]
  by (simp add: die_def resetStreak_def setInitialPosition_def)

theorem checkCollisions_hits_witness:
  "checkCollisions app_js
     [\<lparr>x = 202, y = 57, speed = 250\<rparr>, \<lparr>x = 0, y = 140, speed = 300\<rparr>,
      \<lparr>x = 303, y = 555, speed = 250\<rparr>]
     \<lparr>player = \<lparr>x = 202, y = 57\<rparr>,
      stats = \<lparr>streakX = 637, streakY = 682, streak = 3\<rparr>\<rparr> =
   (\<lparr>player = \<lparr>x = 303, y = 555\<rparr>,
     stats = \<lparr>streakX = 637, streakY = 682, streak = 0\<rparr>\<rparr>,
    [\<lparr>x = 202, y = 57, speed = 250\<rparr>, \<lparr>x = 303, y = 555, speed = 250\<rparr>])"
  using checkCollisions_hits [of app_js
     "\<lparr>player = \<lparr>x = 202, y = 57\<rparr>,
      stats = \<lparr>streakX = 637, streakY = 682, streak = 3\<rparr>\<rparr>"
     "[\<lparr>x = 202, y = 57, speed = 250\<rparr>, \<lparr>x = 0, y = 140, speed = 300\<rparr>]"
     "\<lparr>x = 303, y = 555, speed = 250\<rparr>"]
  by (simp add: checkCollision_def die_def resetStreak_def setInitialPosition_def app_js_def
      playerStartCol_def PlayerStartRow_def numRows_def COLWIDTH_def ROWHEIGHT_def dy_def)

section \<open>Properties of the double-precision arithmetic\<close>

text \<open>
  The pairs built by \<open>fmul\<close> and \<open>fadd\<close> before rounding have the exact product
  and the exact sum as their values; rounding moves a value by at most half a unit of
  the last kept bit; and \<open>Math_floor\<close> is the floor of the value.
\<close>

lemma val_product:
  "val \<lparr>mant = mant a * mant b, expo = expo a + expo b\<rparr> = val a * val b"
  by (simp add: val_def power_int_add)

lemma pow_shift: "0 \<le> k \<Longrightarrow> (2 :: real) powi (e - k) * 2 ^ nat k = 2 powi e"
proof -
  assume k: "0 \<le> k"
  have "(2 :: real) powi e = 2 powi (e - k) * 2 powi k"
    by (simp flip: power_int_add)
  also have "(2 :: real) powi k = 2 ^ nat k" using k by (simp add: power_int_def)
  finally show ?thesis by simp
qed

lemma val_sum:
  "val \<lparr>mant = mant a * 2 ^ nat (expo a - min (expo a) (expo b)) +
            mant b * 2 ^ nat (expo b - min (expo a) (expo b)),
        expo = min (expo a) (expo b)\<rparr> = val a + val b"
proof -
  let ?e = "min (expo a) (expo b)"
  have a: "(2 :: real) powi ?e * 2 ^ nat (expo a - ?e) = 2 powi (expo a)"
    using pow_shift [of "expo a - ?e" "expo a"] by simp
  have b: "(2 :: real) powi ?e * 2 ^ nat (expo b - ?e) = 2 powi (expo b)"
    using pow_shift [of "expo b - ?e" "expo b"] by simp
  have "val \<lparr>mant = mant a * 2 ^ nat (expo a - ?e) + mant b * 2 ^ nat (expo b - ?e),
        expo = ?e\<rparr> =
      of_int (mant a) * (2 powi ?e * 2 ^ nat (expo a - ?e)) +
      of_int (mant b) * (2 powi ?e * 2 ^ nat (expo b - ?e))"
    by (simp add: val_def algebra_simps)
  then show ?thesis unfolding a b by (simp add: val_def)
qed

lemma Math_floor_val: "Math_floor d = \<lfloor>val d\<rfloor>"
proof (cases "0 \<le> expo d")
  case True
  then have v: "val d = of_int (mant d * 2 ^ nat (expo d))"
    by (simp add: val_def power_int_def)
  have "\<lfloor>of_int (mant d * 2 ^ nat (expo d)) :: real\<rfloor> = mant d * 2 ^ nat (expo d)"
    by (rule floor_of_int)
  then have "\<lfloor>val d\<rfloor> = mant d * 2 ^ nat (expo d)"
    unfolding v .
  moreover have "Math_floor d = mant d * 2 ^ nat (expo d)"
    using True by (simp add: Math_floor_def)
  ultimately show ?thesis by simp
next
  case False
  then have "(2 :: real) powi (expo d) = 1 / 2 ^ nat (- expo d)"
    by (simp add: power_int_def power_one_over)
  then have v: "val d = of_int (mant d) / of_int (2 ^ nat (- expo d))"
    by (simp add: val_def)
  have "\<lfloor>of_int (mant d) / of_int (2 ^ nat (- expo d)) :: real\<rfloor> =
      mant d div 2 ^ nat (- expo d)"
    by (rule floor_divide_of_int_eq)
  then have "\<lfloor>val d\<rfloor> = mant d div 2 ^ nat (- expo d)"
    unfolding v .
  moreover have "Math_floor d = mant d div 2 ^ nat (- expo d)"
    using False by (simp add: Math_floor_def)
  ultimately show ?thesis by simp
qed

lemma round53_exact: "bitlen \<bar>mant d\<bar> \<le> 53 \<Longrightarrow> round53 d = d"
  by (simp add: round53_def)

lemma round53_near:
  "\<bar>val (round53 d) - val d\<bar> * 2 \<le> 2 powi (expo (round53 d))"
proof (cases "bitlen \<bar>mant d\<bar> \<le> 53")
  case True
  then show ?thesis by (simp add: round53_def)
next
  case False
  define s where "s = nat (bitlen \<bar>mant d\<bar> - 53)"
  define q where "q = mant d div 2 ^ s"
  define rest where "rest = mant d mod 2 ^ s"
  have s: "0 < s" using False by (simp add: s_def)
  have m: "mant d = q * 2 ^ s + rest"
    unfolding q_def rest_def by (rule div_mult_mod_eq [symmetric])
  have r: "0 \<le> rest" "rest < 2 ^ s" by (simp_all add: rest_def)
  have half: "(2 :: int) ^ s = 2 * 2 ^ (s - 1)" using s by (cases s) simp_all
  define q' where "q' = (if rest < 2 ^ (s - 1) then q
                       else if rest > 2 ^ (s - 1) then q + 1
                       else if even q then q else q + 1)"
  have rd: "round53 d = \<lparr>mant = q', expo = expo d + int s\<rparr>"
    using False by (simp add: round53_def Let_def s_def q_def rest_def q'_def)
  have p: "(2 :: real) powi (expo d + int s) = 2 powi (expo d) * 2 ^ s"
    by (simp add: power_int_add)
  have "\<bar>q' * 2 ^ s - mant d\<bar> * 2 \<le> 2 ^ s"
    using r half unfolding m q'_def by (auto simp: algebra_simps)
  then have "\<bar>of_int (q' * 2 ^ s - mant d) :: real\<bar> * 2 \<le> of_int (2 ^ s)"
    by (metis of_int_abs of_int_le_iff of_int_mult of_int_numeral)
  then have "\<bar>of_int q' * 2 ^ s - of_int (mant d) :: real\<bar> * 2 \<le> 2 ^ s"
    by simp
  then have "\<bar>of_int q' * 2 ^ s - of_int (mant d) :: real\<bar> * 2 * 2 powi (expo d)
      \<le> 2 ^ s * 2 powi (expo d)"
    by (rule mult_right_mono) simp
  moreover have "val (round53 d) = of_int q' * (2 powi (expo d) * 2 ^ s)"
    by (simp add: rd val_def p)
  then have "val (round53 d) - val d =
      (of_int q' * 2 ^ s - of_int (mant d)) * 2 powi (expo d)"
    by (simp add: val_def algebra_simps)
  then have "\<bar>val (round53 d) - val d\<bar> =
      \<bar>of_int q' * 2 ^ s - of_int (mant d) :: real\<bar> * 2 powi (expo d)"
    by (simp add: abs_mult)
  ultimately have "\<bar>val (round53 d) - val d\<bar> * 2 \<le> 2 powi (expo d) * 2 ^ s"
    by (simp add: algebra_simps)
  then show ?thesis by (simp add: rd p)
qed

section \<open>Properties of the enemies\<close>

lemma top_draw: "getRandomInt \<lparr>mant = 9007199254740991, expo = - 53\<rparr> 1 5 = 5"
  by code_simp

lemma half_draw_x: "getRandomInt \<lparr>mant = 4503599627370496, expo = - 53\<rparr> 1 7 = 4"
  by code_simp

lemma half_draw_y: "getRandomInt \<lparr>mant = 4503599627370496, expo = - 53\<rparr> 1 6 = 3"
  by code_simp

lemma top_draw_below_1: "val \<lparr>mant = 9007199254740991, expo = - 53\<rparr> < 1"
  by (simp add: val_def power_int_def power_one_over)

text \<open>
  C5 says that a re-rolled enemy has a speed \<open>baseEnemySpeed + 50 * k\<close> with
  \<open>k \<le> gameDifficulty\<close> for every outcome of the draws, which is what the source's
  comments promise: \<open>getRandomInt\<close> is documented to return a number below \<open>max\<close>.
  The code does not keep the promise. For the largest draw below 1, which is
  \<open>1 - 2 ^ - 53\<close>, the product with 4 is \<open>4 - 2 ^ - 51\<close>, the sum with 1 lies
  half-way between two doubles and rounds to 5, and with the shipped
  \<open>gameDifficulty = 4\<close> the enemy gets \<open>k = 5\<close>.
\<close>

theorem Enemy_update_speed_above_difficulty:
  "is_draw \<lparr>mant = 9007199254740991, expo = - 53\<rparr> \<and>
   val \<lparr>mant = 9007199254740991, expo = - 53\<rparr> < 1 \<and>
   is_draw \<lparr>mant = 4503599627370496, expo = - 53\<rparr> \<and>
   gameDifficulty app_js = 4 \<and>
   getRandomInt \<lparr>mant = 9007199254740991, expo = - 53\<rparr> 1 (gameDifficulty app_js + 1) = 5 \<and>
   Enemy_update app_js (1 / 50)
     (\<lparr>mant = 4503599627370496, expo = - 53\<rparr>, \<lparr>mant = 4503599627370496, expo = - 53\<rparr>,
      \<lparr>mant = 9007199254740991, expo = - 53\<rparr>)
     \<lparr>x = 707, y = 57, speed = 250\<rparr> =
     \<lparr>x = - 404, y = 223, speed = baseEnemySpeed app_js + 50 * 5\<rparr>"
  by (simp add: is_draw_def top_draw_below_1 app_js_def Enemy_update_def
      setRandomValues_def top_draw half_draw_x half_draw_y COLWIDTH_def ROWHEIGHT_def dy_def)

section \<open>The player stays on the grid\<close>

text \<open>\<open>on_grid\<close> says that some whole column and row inside the grid give the position.\<close>

lemma on_grid_iff:
  "on_grid g p \<longleftrightarrow>
     (\<exists>c r. x p = of_int c * COLWIDTH \<and> y p = of_int r * ROWHEIGHT + dy \<and>
        0 \<le> c \<and> c \<le> numCols g - 1 \<and> 0 \<le> r \<and> r \<le> numRows g - 1)"
proof
  assume "on_grid g p"
  then show "\<exists>c r. x p = of_int c * COLWIDTH \<and> y p = of_int r * ROWHEIGHT + dy \<and>
        0 \<le> c \<and> c \<le> numCols g - 1 \<and> 0 \<le> r \<and> r \<le> numRows g - 1"
    unfolding on_grid_def Let_def by blast
next
  assume "\<exists>c r. x p = of_int c * COLWIDTH \<and> y p = of_int r * ROWHEIGHT + dy \<and>
        0 \<le> c \<and> c \<le> numCols g - 1 \<and> 0 \<le> r \<and> r \<le> numRows g - 1"
  then obtain c r where h: "x p = of_int c * COLWIDTH" "y p = of_int r * ROWHEIGHT + dy"
    "0 \<le> c" "c \<le> numCols g - 1" "0 \<le> r" "r \<le> numRows g - 1" by blast
  have c: "\<lfloor>getCurrentCol p\<rfloor> = c" by (simp add: getCurrentCol_def h(1) COLWIDTH_def)
  have r: "\<lfloor>getCurrentRow p\<rfloor> = r" by (simp add: getCurrentRow_def h(2) ROWHEIGHT_def)
  show "on_grid g p"
    unfolding on_grid_def Let_def c r using h by simp
qed

lemma playerStartCol_div: "playerStartCol g = numCols g div 2"
proof -
  have "\<lfloor>real_of_int (numCols g) / real_of_int 2\<rfloor> = numCols g div 2"
    by (rule floor_divide_of_int_eq)
  then show ?thesis by (simp add: playerStartCol_def)
qed

lemma setInitialPosition_on_grid:
  assumes "1 \<le> numCols g" and "1 \<le> numLanes g"
  shows "on_grid g (setInitialPosition g p)"
proof -
  have "0 \<le> playerStartCol g" "playerStartCol g \<le> numCols g - 1"
    using assms(1) by (simp_all add: playerStartCol_div)
  moreover have "0 \<le> PlayerStartRow g" "PlayerStartRow g \<le> numRows g - 1"
    using assms(2) by (simp_all add: PlayerStartRow_def numRows_def)
  ultimately show ?thesis
    unfolding on_grid_iff setInitialPosition_def by auto
qed

lemma handleInput_on_grid:
  assumes "on_grid g q"
  shows "on_grid g (handleInput g d q)"
proof -
  from assms obtain c r where h: "x q = of_int c * COLWIDTH" "y q = of_int r * ROWHEIGHT + dy"
    "0 \<le> c" "c \<le> numCols g - 1" "0 \<le> r" "r \<le> numRows g - 1"
    unfolding on_grid_iff by blast
  have col: "getCurrentCol q = of_int c" by (simp add: getCurrentCol_def h(1) COLWIDTH_def)
  have row: "getCurrentRow q = of_int r" by (simp add: getCurrentRow_def h(2) ROWHEIGHT_def)
  have xl: "x q - COLWIDTH = of_int (c - 1) * COLWIDTH" by (simp add: h(1) algebra_simps)
  have xr: "x q + COLWIDTH = of_int (c + 1) * COLWIDTH" by (simp add: h(1) algebra_simps)
  have yu: "y q - ROWHEIGHT = of_int (r - 1) * ROWHEIGHT + dy" by (simp add: h(2) algebra_simps)
  have yd: "y q + ROWHEIGHT = of_int (r + 1) * ROWHEIGHT + dy" by (simp add: h(2) algebra_simps)
  have left: "on_grid g (q\<lparr>x := x q - COLWIDTH\<rparr>)" if "0 < c"
    unfolding on_grid_iff using h that xl
    by (intro exI [of _ "c - 1"] exI [of _ r]) simp
  have right: "on_grid g (q\<lparr>x := x q + COLWIDTH\<rparr>)" if "c < numCols g - 1"
    unfolding on_grid_iff using h that xr
    by (intro exI [of _ "c + 1"] exI [of _ r]) simp
  have up: "on_grid g (q\<lparr>y := y q - ROWHEIGHT\<rparr>)" if "0 < r"
    unfolding on_grid_iff using h that yu
    by (intro exI [of _ c] exI [of _ "r - 1"]) simp
  have down: "on_grid g (q\<lparr>y := y q + ROWHEIGHT\<rparr>)" if "r < numRows g - 1"
    unfolding on_grid_iff using h that yd
    by (intro exI [of _ c] exI [of _ "r + 1"]) simp
  have lt: "(of_int c :: real) < of_int (numCols g - 1) \<longleftrightarrow> c < numCols g - 1"
    by (rule of_int_less_iff)
  have lt': "(of_int r :: real) < of_int (numRows g - 1) \<longleftrightarrow> r < numRows g - 1"
    by (rule of_int_less_iff)
  show ?thesis
    unfolding handleInput_def col row lt lt'
    using assms left right up down by simp
qed

lemma handleInput_other:
  assumes "d \<noteq> Str ''left''" and "d \<noteq> Str ''right''" and "d \<noteq> Str ''up''"
    and "d \<noteq> Str ''down''"
  shows "handleInput g d q = q"
  using assms by (simp add: handleInput_def)

lemma call_on_grid:
  assumes "1 \<le> numCols g" and "1 \<le> numLanes g" and "on_grid g q"
  shows "on_grid g (call g q c)"
  using assms by (cases c) (simp_all add: handleInput_on_grid setInitialPosition_on_grid)

lemma calls_on_grid:
  assumes "1 \<le> numCols g" and "1 \<le> numLanes g" and "on_grid g q"
  shows "on_grid g (calls g cs q)"
  unfolding calls_def using assms(3)
  by (induction cs arbitrary: q) (simp_all add: call_on_grid [OF assms(1,2)])

text \<open>
  C10: on a grid with at least one column and one lane, \<open>setInitialPosition\<close> puts the
  player on a tile of the grid (\<open>x = c * COLWIDTH\<close>, \<open>y = r * ROWHEIGHT + dy\<close> with
  whole \<open>0 \<le> c \<le> numCols - 1\<close> and \<open>0 \<le> r \<le> numRows - 1\<close>); every
  \<open>handleInput\<close> call keeps a player that is on the grid on the grid, whatever the
  argument; an argument that is none of the four directions changes nothing; and so the
  player is on the grid after any sequence of \<open>handleInput\<close> and
  \<open>setInitialPosition\<close> calls that follows a \<open>setInitialPosition\<close>.
\<close>

theorem player_stays_on_grid:
  assumes "1 \<le> numCols g" and "1 \<le> numLanes g"
  shows "on_grid g (setInitialPosition g p) \<and>
         (\<forall>d q. on_grid g q \<longrightarrow> on_grid g (handleInput g d q)) \<and>
         (\<forall>d q. d \<noteq> Str ''left'' \<and> d \<noteq> Str ''right'' \<and> d \<noteq> Str ''up'' \<and> d \<noteq> Str ''down''
            \<longrightarrow> handleInput g d q = q) \<and>
         (\<forall>cs. on_grid g (calls g cs (setInitialPosition g p)))"
  using calls_on_grid [OF assms setInitialPosition_on_grid [OF assms]]
    setInitialPosition_on_grid [OF assms]
  by (simp add: handleInput_on_grid handleInput_other)

theorem player_stays_on_grid_witness:
  "1 \<le> numCols app_js \<and> 1 \<le> numLanes app_js \<and>
   calls app_js
     [HandleInput (Str ''up''), HandleInput (Str ''left''), HandleInput Undefined,
      HandleInput (Str ''down''), HandleInput (Str ''down''), HandleInput (Str ''a'')]
     (setInitialPosition app_js \<lparr>x = 0, y = 0\<rparr>) = \<lparr>x = 202, y = 555\<rparr> \<and>
   on_grid app_js \<lparr>x = 202, y = 555\<rparr>"
proof -
  have v: "calls app_js
     [HandleInput (Str ''up''), HandleInput (Str ''left''), HandleInput Undefined,
      HandleInput (Str ''down''), HandleInput (Str ''down''), HandleInput (Str ''a'')]
     (setInitialPosition app_js \<lparr>x = 0, y = 0\<rparr>) = \<lparr>x = 202, y = 555\<rparr>"
    by (simp add: calls_def handleInput_def setInitialPosition_def getCurrentCol_def
        getCurrentRow_def app_js_def playerStartCol_def PlayerStartRow_def numRows_def
        COLWIDTH_def ROWHEIGHT_def dy_def)
  have n: "1 \<le> numCols app_js" "1 \<le> numLanes app_js" by (simp_all add: app_js_def)
  from player_stays_on_grid [OF n, of "\<lparr>x = 0, y = 0\<rparr>"]
  have "on_grid app_js (calls app_js
     [HandleInput (Str ''up''), HandleInput (Str ''left''), HandleInput Undefined,
      HandleInput (Str ''down''), HandleInput (Str ''down''), HandleInput (Str ''a'')]
     (setInitialPosition app_js \<lparr>x = 0, y = 0\<rparr>))"
    by blast
  with v n show ?thesis by simp
qed

section \<open>Properties of the configuration module\<close>

lemma tileset_after_call:
  "settings_colWidth (after_call s c) = settings_colWidth s \<and>
   settings_rowHeight (after_call s c) = settings_rowHeight s \<and>
   settings_tileTop (after_call s c) = settings_tileTop s \<and>
   settings_tileBottom (after_call s c) = settings_tileBottom s \<and>
   settings_tileHeight (after_call s c) = settings_tileHeight s \<and>
   settings_dy (after_call s c) = settings_dy s"
  by (cases c)
    (simp_all add: init_def setScalingFactor_def incrementGameDifficulty_def
      decrementGameDifficulty_def incrementNumEnemies_def decrementNumEnemies_def
      incrementNumLanes_def decrementNumLanes_def incrementNumCols_def decrementNumCols_def)

lemma tileset_after_calls:
  "settings_colWidth (after_calls s cs) = settings_colWidth s \<and>
   settings_rowHeight (after_calls s cs) = settings_rowHeight s \<and>
   settings_tileTop (after_calls s cs) = settings_tileTop s \<and>
   settings_tileBottom (after_calls s cs) = settings_tileBottom s \<and>
   settings_tileHeight (after_calls s cs) = settings_tileHeight s \<and>
   settings_dy (after_calls s cs) = settings_dy s"
  unfolding after_calls_def
  by (induction cs arbitrary: s) (simp_all add: tileset_after_call)

lemma getPlayerStartCol_div: "getPlayerStartCol s = settings_numCols s div 2"
proof -
  have "\<lfloor>real_of_int (settings_numCols s) / real_of_int 2\<rfloor> = settings_numCols s div 2"
    by (rule floor_divide_of_int_eq)
  then show ?thesis by (simp add: getPlayerStartCol_def)
qed

text \<open>
  C6: in every state the module reaches from its literal by \<open>init\<close> and any sequence
  of further calls, the derived getters are computed from the settings of that state:
  \<open>getNumRows\<close> is \<open>numLanes + 3\<close>, \<open>getPlayerStartCol\<close> is \<open>numCols / 2\<close>
  rounded down, \<open>getPlayerStartRow\<close> is \<open>getNumRows - 1\<close>,
  \<open>getNativeCanvasWidth\<close> is \<open>numCols * colWidth\<close> and \<open>getNativeCanvasHeight\<close>
  is \<open>getNumRows * rowHeight + tileTop + tileBottom\<close>, where the four tileset fields
  still hold the values of the literal.
\<close>

theorem derived_getters_live:
  assumes "closure_literal s0"
  shows "(let s = after_calls (init nl nc ne bs gd s0) cs
          in getNumRows s = settings_numLanes s + 3 \<and>
             getPlayerStartCol s = \<lfloor>of_int (settings_numCols s) / (2 :: real)\<rfloor> \<and>
             getPlayerStartCol s = settings_numCols s div 2 \<and>
             getPlayerStartRow s = getNumRows s - 1 \<and>
             getNativeCanvasWidth s = of_int (settings_numCols s) * settings_colWidth s \<and>
             getNativeCanvasHeight s =
               of_int (getNumRows s) * settings_rowHeight s + settings_tileTop s +
               settings_tileBottom s \<and>
             settings_colWidth s = 101 \<and> settings_rowHeight s = 83 \<and>
             settings_tileTop s = 51 \<and> settings_tileBottom s = 37)"
proof -
  have "closure_literal s0 \<Longrightarrow> settings_colWidth (init nl nc ne bs gd s0) = 101 \<and>
      settings_rowHeight (init nl nc ne bs gd s0) = 83 \<and>
      settings_tileTop (init nl nc ne bs gd s0) = 51 \<and>
      settings_tileBottom (init nl nc ne bs gd s0) = 37"
    by (simp add: closure_literal_def init_def)
  with assms show ?thesis
    by (simp add: Let_def tileset_after_calls getPlayerStartCol_div getNumRows_def
        getPlayerStartRow_def getNativeCanvasWidth_def getNativeCanvasHeight_def
        flip: getPlayerStartCol_def)
qed

theorem derived_getters_live_witness:
  "closure_literal default_settings \<and>
   (let s = after_calls (init 5 9 3 150 2 default_settings)
              [IncrementNumLanes, DecrementNumCols, SetScalingFactor (1 / 2), IncrementNumLanes]
    in settings_numLanes s = 7 \<and> settings_numCols s = 8 \<and>
       getNumRows s = 10 \<and> getPlayerStartCol s = 4 \<and> getPlayerStartRow s = 9 \<and>
       getNativeCanvasWidth s = 808 \<and> getNativeCanvasHeight s = 918)"
  using derived_getters_live [of default_settings 5 9 3 150 2
      "[IncrementNumLanes, DecrementNumCols, SetScalingFactor (1 / 2), IncrementNumLanes]"]
  by (simp add: closure_literal_def default_settings_def after_calls_def init_def
      incrementNumLanes_def decrementNumCols_def setScalingFactor_def Let_def
      getNumRows_def getPlayerStartCol_def getPlayerStartRow_def getNativeCanvasWidth_def
      getNativeCanvasHeight_def)

text \<open>
  C7, as worded: a setter whose setting is not at the bound changes it by one. This
  fails beyond the bound: \<open>init\<close> stores any difficulty, and at 25, which is not the
  bound 20, \<open>incrementGameDifficulty\<close> returns nothing and leaves the settings as
  they are.
\<close>

theorem increment_beyond_bound_counterexample:
  "settings_gameDifficulty (init 4 7 10 200 25 default_settings) \<noteq> 20 \<and>
   incrementGameDifficulty (init 4 7 10 200 25 default_settings) =
     (None, init 4 7 10 200 25 default_settings)"
  by (simp add: init_def default_settings_def incrementGameDifficulty_def)

text \<open>
  C7, amended: each increment and decrement setter, called with its setting at or
  beyond the bound in its direction (difficulty \<open>\<ge> 20\<close> or \<open>\<le> 1\<close>, enemies
  \<open>\<ge> 20\<close> or \<open>\<le> 0\<close>, lanes \<open>\<ge> 10\<close> or \<open>\<le> 1\<close>, columns \<open>\<ge> 20\<close> or
  \<open>\<le> 1\<close>), returns nothing and leaves every setting as it was; called with its
  setting strictly inside the bound it returns the new number and the settings differ
  from the old ones in that one field, which has moved by one. The result is a function
  of the settings, and no result is an error.
\<close>

theorem setters_at_bounds:
  "(20 \<le> settings_gameDifficulty s \<longrightarrow> incrementGameDifficulty s = (None, s)) \<and>
   (settings_gameDifficulty s < 20 \<longrightarrow> incrementGameDifficulty s =
      (Some (settings_gameDifficulty s + 1),
       s\<lparr>settings_gameDifficulty := settings_gameDifficulty s + 1\<rparr>)) \<and>
   (settings_gameDifficulty s \<le> 1 \<longrightarrow> decrementGameDifficulty s = (None, s)) \<and>
   (1 < settings_gameDifficulty s \<longrightarrow> decrementGameDifficulty s =
      (Some (settings_gameDifficulty s - 1),
       s\<lparr>settings_gameDifficulty := settings_gameDifficulty s - 1\<rparr>)) \<and>
   (20 \<le> settings_numEnemies s \<longrightarrow> incrementNumEnemies s = (None, s)) \<and>
   (settings_numEnemies s < 20 \<longrightarrow> incrementNumEnemies s =
      (Some (settings_numEnemies s + 1),
       s\<lparr>settings_numEnemies := settings_numEnemies s + 1\<rparr>)) \<and>
   (settings_numEnemies s \<le> 0 \<longrightarrow> decrementNumEnemies s = (None, s)) \<and>
   (0 < settings_numEnemies s \<longrightarrow> decrementNumEnemies s =
      (Some (settings_numEnemies s - 1),
       s\<lparr>settings_numEnemies := settings_numEnemies s - 1\<rparr>)) \<and>
   (10 \<le> settings_numLanes s \<longrightarrow> incrementNumLanes s = (None, s)) \<and>
   (settings_numLanes s < 10 \<longrightarrow> incrementNumLanes s =
      (Some (settings_numLanes s + 1),
       s\<lparr>settings_numLanes := settings_numLanes s + 1\<rparr>)) \<and>
   (settings_numLanes s \<le> 1 \<longrightarrow> decrementNumLanes s = (None, s)) \<and>
   (1 < settings_numLanes s \<longrightarrow> decrementNumLanes s =
      (Some (settings_numLanes s - 1),
       s\<lparr>settings_numLanes := settings_numLanes s - 1\<rparr>)) \<and>
   (20 \<le> settings_numCols s \<longrightarrow> incrementNumCols s = (None, s)) \<and>
   (settings_numCols s < 20 \<longrightarrow> incrementNumCols s =
      (Some (settings_numCols s + 1),
       s\<lparr>settings_numCols := settings_numCols s + 1\<rparr>)) \<and>
   (settings_numCols s \<le> 1 \<longrightarrow> decrementNumCols s = (None, s)) \<and>
   (1 < settings_numCols s \<longrightarrow> decrementNumCols s =
      (Some (settings_numCols s - 1),
       s\<lparr>settings_numCols := settings_numCols s - 1\<rparr>))"
  by (simp add: incrementGameDifficulty_def
      decrementGameDifficulty_def incrementNumEnemies_def decrementNumEnemies_def
      incrementNumLanes_def decrementNumLanes_def incrementNumCols_def decrementNumCols_def)

theorem setters_at_bounds_witness:
  "incrementGameDifficulty default_settings =
     (Some 5, default_settings\<lparr>settings_gameDifficulty := 5\<rparr>) \<and>
   decrementGameDifficulty default_settings =
     (Some 3, default_settings\<lparr>settings_gameDifficulty := 3\<rparr>) \<and>
   incrementNumEnemies default_settings =
     (Some 11, default_settings\<lparr>settings_numEnemies := 11\<rparr>) \<and>
   decrementNumEnemies default_settings =
     (Some 9, default_settings\<lparr>settings_numEnemies := 9\<rparr>) \<and>
   incrementNumLanes default_settings =
     (Some 5, default_settings\<lparr>settings_numLanes := 5\<rparr>) \<and>
   decrementNumLanes default_settings =
     (Some 3, default_settings\<lparr>settings_numLanes := 3\<rparr>) \<and>
   incrementNumCols default_settings =
     (Some 8, default_settings\<lparr>settings_numCols := 8\<rparr>) \<and>
   decrementNumCols default_settings =
     (Some 6, default_settings\<lparr>settings_numCols := 6\<rparr>) \<and>
   incrementGameDifficulty (init 10 20 20 200 20 default_settings) =
     (None, init 10 20 20 200 20 default_settings) \<and>
   incrementNumEnemies (init 10 20 20 200 20 default_settings) =
     (None, init 10 20 20 200 20 default_settings) \<and>
   incrementNumLanes (init 10 20 20 200 20 default_settings) =
     (None, init 10 20 20 200 20 default_settings) \<and>
   incrementNumCols (init 10 20 20 200 20 default_settings) =
     (None, init 10 20 20 200 20 default_settings) \<and>
   decrementGameDifficulty (init 1 1 0 200 1 default_settings) =
     (None, init 1 1 0 200 1 default_settings) \<and>
   decrementNumEnemies (init 1 1 0 200 1 default_settings) =
     (None, init 1 1 0 200 1 default_settings) \<and>
   decrementNumLanes (init 1 1 0 200 1 default_settings) =
     (None, init 1 1 0 200 1 default_settings) \<and>
   decrementNumCols (init 1 1 0 200 1 default_settings) =
     (None, init 1 1 0 200 1 default_settings)"
  using setters_at_bounds [of default_settings]
    setters_at_bounds [of "init 10 20 20 200 20 default_settings"]
    setters_at_bounds [of "init 1 1 0 200 1 default_settings"]
  by (simp add: default_settings_def init_def)

text \<open>
  C8: once \<open>setScalingFactor\<close> has stored a scale \<open>sc\<close>, positive or not, the column
  width, the row height, the vertical offset and both canvas sizes are \<open>sc\<close> times
  their native getters, an entity's \<open>scaledX\<close> and \<open>scaledY\<close> are \<open>sc\<close> times its
  \<open>x\<close> and \<open>y\<close>, and each native getter returns what it returned before the call.
\<close>

theorem scale_getters:
  "(let s' = snd (setScalingFactor sc s)
    in fst (setScalingFactor sc s) = sc \<and> getScalingFactor s' = sc \<and>
       getColWidth s' = sc * getNativeColWidth s' \<and>
       getRowHeight s' = sc * getNativeRowHeight s' \<and>
       getDY s' = sc * getNativeDY s' \<and>
       getCanvasWidth s' = sc * getNativeCanvasWidth s' \<and>
       getCanvasHeight s' = sc * getNativeCanvasHeight s' \<and>
       scaledX s' e = sc * x e \<and> scaledY s' e = sc * y e \<and>
       getNativeColWidth s' = getNativeColWidth s \<and>
       getNativeRowHeight s' = getNativeRowHeight s \<and>
       getNativeDY s' = getNativeDY s \<and>
       getNativeCanvasWidth s' = getNativeCanvasWidth s \<and>
       getNativeCanvasHeight s' = getNativeCanvasHeight s)"
  by (simp add: Let_def setScalingFactor_def getScalingFactor_def getColWidth_def
      getNativeColWidth_def getRowHeight_def getNativeRowHeight_def getDY_def getNativeDY_def
      getCanvasWidth_def getCanvasHeight_def getNativeCanvasWidth_def
      getNativeCanvasHeight_def getNumRows_def scaledX_def scaledY_def)

end
